theory Spec2Isabelle
  imports Complex_Main "HOL-Library.AList"
begin

section \<open>Conventions\<close>

text \<open>
  The development embeds five modules of chemex: the two-state and three-state
  exchange-model builders, the three-state in-phase CEST profile, the CEST plotting
  helpers and the fit driver.

  Python floats are read as real numbers: rounding and overflow are not modelled.
  Where numpy goes on with \<open>nan\<close> or \<open>inf\<close> (a RuntimeWarning, not an exception) the
  value is \<open>None\<close> of type \<open>real option\<close>; where Python raises, the function returns
  \<open>Inl\<close> of the exception.
\<close>

datatype error =
    KeyError | NameError | ValueError | IndexError | TypeError
  | ZeroDivisionError | LinAlgError | AttributeError | SyntaxError


text \<open>Sequencing: an exception in the first step ends the computation.\<close>

definition and_then :: "error + 'a \<Rightarrow> ('a \<Rightarrow> error + 'b) \<Rightarrow> error + 'b" where
  "and_then r f = (case r of Inl e \<Rightarrow> Inl e | Inr x \<Rightarrow> f x)"


section \<open>numpy and builtin helpers\<close>

text \<open>\<^verbatim>\<open>np.median\<close> of a one-dimensional array: the middle element of the sorted
  array, the mean of the two middle elements when the length is even, \<open>nan\<close> when the
  array is empty.\<close>

definition np_median :: "real list \<Rightarrow> real option" where
  "np_median a =
     (let s = sort a; n = length s in
      if n = 0 then None
      else if n mod 2 = 1 then Some (s ! (n div 2))
      else Some ((s ! (n div 2 - 1) + s ! (n div 2)) / 2))"

text \<open>Elementwise operations pair two one-dimensional arrays by numpy's broadcasting
  rule: equal lengths, or one of them of length 1; other shapes raise ValueError.\<close>

definition np_zip :: "'a list \<Rightarrow> 'b list \<Rightarrow> error + ('a \<times> 'b) list" where
  "np_zip xs ys =
     (if length xs = length ys then Inr (zip xs ys)
      else if length xs = 1 then Inr (map (\<lambda>y. (hd xs, y)) ys)
      else if length ys = 1 then Inr (map (\<lambda>x. (x, hd ys)) xs)
      else Inl ValueError)"

text \<open>\<^verbatim>\<open>arr[mask]\<close> with a boolean mask: the mask must have the length of the array.\<close>

definition np_select :: "bool list \<Rightarrow> 'a list \<Rightarrow> error + 'a list" where
  "np_select m arr =
     (if length m \<noteq> length arr then Inl IndexError
      else Inr (map snd (filter fst (zip m arr))))"

text \<open>Float division under numpy: a zero divisor gives \<open>inf\<close> or \<open>nan\<close>, no exception.\<close>

definition np_div :: "real \<Rightarrow> real \<Rightarrow> real option" where
  "np_div x y = (if y = 0 then None else Some (x / y))"

text \<open>The sum of an array some of whose entries may be \<open>nan\<close> or \<open>inf\<close>.\<close>

definition np_sum :: "real option list \<Rightarrow> real option" where
  "np_sum xs = map_option sum_list (those xs)"

definition two_pi :: real where
  "two_pi = 2.0 * pi"


section \<open>Constraint expressions\<close>

text \<open>
  The builders hand lmfit the formula of a derived parameter as a string; lmfit
  evaluates it with Python's arithmetic over the current values of the parameters it
  names. \<open>expr\<close> is the syntax tree of such a string; a number that \<^verbatim>\<open>str.format\<close> has
  written into the string is a \<open>Num\<close>, a parameter's full name is a \<open>Name\<close>.
\<close>

datatype expr =
    Num real
  | Name string
  | Neg expr
  | Add expr expr
  | Sub expr expr
  | Mul expr expr
  | Div expr expr
  | Pow expr expr
  | Exp expr

text \<open>Python's \<^verbatim>\<open>x ** y\<close> on floats. A negative base with a fractional exponent has no
  real value (Python 2 raises ValueError, Python 3 answers with a complex number).\<close>

definition py_pow :: "real \<Rightarrow> real \<Rightarrow> error + real" where
  "py_pow x y =
     (if 0 < x then Inr (x powr y)
      else if x = 0 then
        (if 0 < y then Inr 0 else if y = 0 then Inr 1 else Inl ZeroDivisionError)
      else if y \<in> \<int> then Inr ((if even \<lfloor>y\<rfloor> then 1 else - 1) * ((- x) powr y))
      else Inl ValueError)"

definition py_truediv :: "real \<Rightarrow> real \<Rightarrow> error + real" where
  "py_truediv x y = (if y = 0 then Inl ZeroDivisionError else Inr (x / y))"

definition lift2 :: "('a \<Rightarrow> 'b \<Rightarrow> error + 'c) \<Rightarrow> error + 'a \<Rightarrow> error + 'b \<Rightarrow> error + 'c" where
  "lift2 f a b = and_then a (\<lambda>x. and_then b (\<lambda>y. f x y))"

fun eval :: "(string \<rightharpoonup> real) \<Rightarrow> expr \<Rightarrow> error + real" where
  "eval env (Num c) = Inr c"
| "eval env (Name n) = (case env n of None \<Rightarrow> Inl NameError | Some v \<Rightarrow> Inr v)"
| "eval env (Neg a) = and_then (eval env a) (\<lambda>x. Inr (- x))"
| "eval env (Add a b) = lift2 (\<lambda>x y. Inr (x + y)) (eval env a) (eval env b)"
| "eval env (Sub a b) = lift2 (\<lambda>x y. Inr (x - y)) (eval env a) (eval env b)"
| "eval env (Mul a b) = lift2 (\<lambda>x y. Inr (x * y)) (eval env a) (eval env b)"
| "eval env (Div a b) = lift2 py_truediv (eval env a) (eval env b)"
| "eval env (Pow a b) = lift2 py_pow (eval env a) (eval env b)"
| "eval env (Exp a) = and_then (eval env a) (\<lambda>x. Inr (exp x))"


section \<open>The parameter collection\<close>

text \<open>One entry of \<^verbatim>\<open>lmfit.Parameters\<close>, as \<^verbatim>\<open>add_many\<close> receives it:
  (name, value, vary, min, max, expr). The collection is an ordered dictionary: adding
  a name that is present replaces its entry in place.\<close>

record param =
  par_value :: real
  par_vary :: "bool option"
  par_min :: "real option"
  par_max :: "real option"
  par_expr :: "expr option"

type_synonym parameters = "(string \<times> param) list"

definition add_many :: "parameters \<Rightarrow> (string \<times> param) list \<Rightarrow> parameters" where
  "add_many params entries = fold (\<lambda>(n, p). AList.update n p) entries params"

definition param_value :: "parameters \<Rightarrow> string \<Rightarrow> error + real" where
  "param_value params name =
     (case map_of params name of None \<Rightarrow> Inl KeyError | Some p \<Rightarrow> Inr (par_value p))"


section \<open>chemex/experiments/cest/iph/3st\_fast.py\<close>

text \<open>The twelve physical quantities of the profile. \<open>map_names\<close> holds their full
  parameter names, the keyword arguments of \<^verbatim>\<open>_calculate_profile\<close> hold their values.\<close>

record 'a phys =
  pb :: 'a
  pc :: 'a
  kex_ab :: 'a
  kex_bc :: 'a
  kex_ac :: 'a
  cs_i_a :: 'a
  dw_i_ab :: 'a
  dw_i_ac :: 'a
  lambda_i_a :: 'a
  dlambda_i_ab :: 'a
  dlambda_i_ac :: 'a
  rho_i_a :: 'a

text \<open>The state of a \<^verbatim>\<open>Profile\<close> object. \<open>ppm_to_rads\<close> is computed once by the
  constructor from tables outside these sources; \<open>cache\<close> is the content of the
  \<^verbatim>\<open>lru_cache(5)\<close> wrapped around \<^verbatim>\<open>_calculate_profile\<close>, most recent entry first.\<close>

record profile =
  profile_name :: string
  b1_offsets :: "real list"
  val :: "real list"
  err :: "real list"
  h_larmor_frq :: real
  temperature :: real
  carrier :: real
  b1_frq :: real
  time_t1 :: real
  experiment_name :: string
  on_resonance_filter :: real
  ppm_to_rads :: real
  map_names :: "string phys"
  cache :: "(real phys \<times> real list) list"

text \<open>Modelled from the spec: \<^verbatim>\<open>check_par\<close> of \<^verbatim>\<open>chemex.experiments.base_profile\<close> is not
  in the sources. The specification makes the on-resonance width optional with default 0
  and lets missing metadata abort the run.\<close>

definition check_par :: "(string \<rightharpoonup> real) \<Rightarrow> string \<Rightarrow> real option \<Rightarrow> error + real" where
  "check_par exp_details name dflt =
     (case exp_details name of
        Some v \<Rightarrow> Inr v
      | None \<Rightarrow> (case dflt of Some d \<Rightarrow> Inr d | None \<Rightarrow> Inl KeyError))"

text \<open>\<^verbatim>\<open>check_par(exp_details, 'on_resonance_filter', convert=float, default=0.0)\<close>\<close>

definition init_on_resonance_filter :: "(string \<rightharpoonup> real) \<Rightarrow> error + real" where
  "init_on_resonance_filter exp_details =
     check_par exp_details ''on_resonance_filter'' (Some 0.0)"

text \<open>The keyword arguments of \<^verbatim>\<open>compute_liouvillian\<close>.\<close>

record liouvillian_args =
  lv_pb :: real
  lv_pc :: real
  lv_kex_ab :: real
  lv_kex_bc :: real
  lv_kex_ac :: real
  lv_lambda_i_a :: real
  lv_rho_i_a :: real
  lv_omega_i_a :: real
  lv_lambda_i_b :: real
  lv_rho_i_b :: real
  lv_omega_i_b :: real
  lv_lambda_i_c :: real
  lv_rho_i_c :: real
  lv_omega_i_c :: real
  lv_omega1x_i :: real

text \<open>
  A \<open>propagator\<close> stands for the \<^verbatim>\<open>else\<close> branch of the loop: \<^verbatim>\<open>compute_liouvillian\<close>
  (of \<^verbatim>\<open>chemex.bases.iph_3st\<close>, not in the sources), scipy's \<^verbatim>\<open>eig\<close> and \<^verbatim>\<open>inv\<close>, the
  choice of the slow modes and the product with the equilibrium vector. It receives the
  keyword arguments, the saturation time and \<open>magz_eq\<close>; scipy may raise.
\<close>

type_synonym propagator = "liouvillian_args \<Rightarrow> real \<Rightarrow> real \<times> real \<times> real \<Rightarrow> error + real"

definition omega_i_a_of :: "profile \<Rightarrow> real phys \<Rightarrow> real \<Rightarrow> real" where
  "omega_i_a_of self kw b1_offset =
     (cs_i_a kw - carrier self) * ppm_to_rads self - two_pi * b1_offset"

definition magz_eq :: "real phys \<Rightarrow> real \<times> real \<times> real" where
  "magz_eq kw = (1 - pb kw - pc kw, pb kw, pc kw)"

definition liouvillian_kwargs :: "profile \<Rightarrow> real phys \<Rightarrow> real \<Rightarrow> liouvillian_args" where
  "liouvillian_kwargs self kw omega_i_a =
     (let domega_i_ab = dw_i_ab kw * ppm_to_rads self;
          domega_i_ac = dw_i_ac kw * ppm_to_rads self;
          omega1x_i = two_pi * b1_frq self
      in \<lparr> lv_pb = pb kw, lv_pc = pc kw,
           lv_kex_ab = kex_ab kw, lv_kex_bc = kex_bc kw, lv_kex_ac = kex_ac kw,
           lv_lambda_i_a = lambda_i_a kw, lv_rho_i_a = rho_i_a kw, lv_omega_i_a = omega_i_a,
           lv_lambda_i_b = lambda_i_a kw + dlambda_i_ab kw, lv_rho_i_b = rho_i_a kw,
           lv_omega_i_b = omega_i_a + domega_i_ab,
           lv_lambda_i_c = lambda_i_a kw + dlambda_i_ac kw, lv_rho_i_c = rho_i_a kw,
           lv_omega_i_c = omega_i_a + domega_i_ac,
           lv_omega1x_i = omega1x_i \<rparr>)"

text \<open>The loop over \<^verbatim>\<open>zip(self.b1_offsets, omega_i_a_array)\<close>.\<close>

fun profile_loop ::
  "propagator \<Rightarrow> profile \<Rightarrow> real phys \<Rightarrow> (real \<times> real) list \<Rightarrow> error + real list" where
  "profile_loop propagate self kw [] = Inr []"
| "profile_loop propagate self kw ((b1_offset, omega_i_a) # rest) =
     and_then
       (if b1_offset \<le> - 10000 then Inr (fst (magz_eq kw))
        else propagate (liouvillian_kwargs self kw omega_i_a) (time_t1 self) (magz_eq kw))
       (\<lambda>magz_a.
          and_then (profile_loop propagate self kw rest)
            (\<lambda>profile. Inr (magz_a # profile)))"

text \<open>\<^verbatim>\<open>_calculate_profile\<close> as written, without the cache (its \<^verbatim>\<open>__wrapped__\<close>).\<close>

definition calculate_profile_wrapped :: "propagator \<Rightarrow> profile \<Rightarrow> real phys \<Rightarrow> error + real list" where
  "calculate_profile_wrapped propagate self kw =
     (let omega_i_a_array = map (omega_i_a_of self kw) (b1_offsets self)
      in profile_loop propagate self kw (zip (b1_offsets self) omega_i_a_array))"

text \<open>\<^verbatim>\<open>self._calculate_profile\<close> after the constructor: the same function behind
  \<^verbatim>\<open>lru_cache(5)\<close>, keyed by the keyword arguments alone.\<close>

definition calculate_profile_cached ::
  "propagator \<Rightarrow> profile \<Rightarrow> real phys \<Rightarrow> error + (real list \<times> profile)" where
  "calculate_profile_cached propagate self kw =
     (case map_of (cache self) kw of
        Some values \<Rightarrow>
          Inr (values, self\<lparr>cache := (kw, values) # filter (\<lambda>(k, v). k \<noteq> kw) (cache self)\<rparr>)
      | None \<Rightarrow>
          and_then (calculate_profile_wrapped propagate self kw)
            (\<lambda>values. Inr (values, self\<lparr>cache := take 5 ((kw, values) # cache self)\<rparr>)))"

text \<open>\<^verbatim>\<open>sum(cal * self.val / self.err ** 2) / sum((cal / self.err) ** 2)\<close>. The builtin
  \<^verbatim>\<open>sum\<close> of an empty array is the integer 0, and \<^verbatim>\<open>0 / 0\<close> on integers raises.\<close>

definition calculate_scale :: "profile \<Rightarrow> real list \<Rightarrow> error + real option" where
  "calculate_scale self cal =
     and_then (np_zip cal (val self)) (\<lambda>cv.
     and_then (np_zip (map (\<lambda>(c, v). c * v) cv) (map (\<lambda>e. e ^ 2) (err self))) (\<lambda>ne.
     and_then (np_zip cal (err self)) (\<lambda>ce.
       (let numerator = np_sum (map (\<lambda>(n, e2). np_div n e2) ne);
            denominator = np_sum (map (\<lambda>(c, e). map_option (\<lambda>q. q ^ 2) (np_div c e)) ce)
        in if ce = [] then Inl ZeroDivisionError
           else Inr (case (numerator, denominator) of
                       (Some n, Some d) \<Rightarrow> np_div n d
                     | _ \<Rightarrow> None)))))"

text \<open>The dictionary comprehension of \<^verbatim>\<open>calculate_profile\<close>:
  \<^verbatim>\<open>params[long_name].value\<close> for each of the twelve names.\<close>

definition get_kwargs :: "parameters \<Rightarrow> string phys \<Rightarrow> error + real phys" where
  "get_kwargs params names =
     (case those (map (\<lambda>n. map_of params n)
                    [pb names, pc names, kex_ab names, kex_bc names, kex_ac names,
                     cs_i_a names, dw_i_ab names, dw_i_ac names, lambda_i_a names,
                     dlambda_i_ab names, dlambda_i_ac names, rho_i_a names]) of
        Some [p1, p2, p3, p4, p5, p6, p7, p8, p9, p10, p11, p12] \<Rightarrow>
          Inr \<lparr> pb = par_value p1, pc = par_value p2, kex_ab = par_value p3,
                kex_bc = par_value p4, kex_ac = par_value p5, cs_i_a = par_value p6,
                dw_i_ab = par_value p7, dw_i_ac = par_value p8, lambda_i_a = par_value p9,
                dlambda_i_ab = par_value p10, dlambda_i_ac = par_value p11,
                rho_i_a = par_value p12 \<rparr>
      | _ \<Rightarrow> Inl KeyError)"

text \<open>\<^verbatim>\<open>calculate_profile(params, b1_offsets=None)\<close>. The scale comes from the curve on
  the profile's own offsets; with other offsets the curve is computed again on them,
  past the cache.\<close>

definition calculate_profile ::
  "propagator \<Rightarrow> parameters \<Rightarrow> real list option \<Rightarrow> profile \<Rightarrow> error + (real option list \<times> profile)" where
  "calculate_profile propagate params b1_offsets_arg self =
     and_then (get_kwargs params (map_names self)) (\<lambda>kwargs.
     and_then (calculate_profile_cached propagate self kwargs) (\<lambda>(values, self1).
     and_then (calculate_scale self1 values) (\<lambda>scale.
     and_then
       (case b1_offsets_arg of
          None \<Rightarrow> Inr values
        | Some grid \<Rightarrow> calculate_profile_wrapped propagate (self1\<lparr>b1_offsets := grid\<rparr>) kwargs)
       (\<lambda>values'. Inr (map (\<lambda>v. map_option (\<lambda>s. v * s) scale) values', self1)))))"

text \<open>\<^verbatim>\<open>two_pi * b1_offsets / self.ppm_to_rads + self.carrier\<close>\<close>

definition b1_offsets_to_ppm :: "profile \<Rightarrow> real list option \<Rightarrow> real option list" where
  "b1_offsets_to_ppm self b1_offsets_arg =
     (let offsets = (case b1_offsets_arg of None \<Rightarrow> b1_offsets self | Some g \<Rightarrow> g)
      in map (\<lambda>b. map_option (\<lambda>q. q + carrier self) (np_div (two_pi * b) (ppm_to_rads self)))
           offsets)"

text \<open>The offset of a point from the resonance of state A, in Hz, and the mutation of
  the three arrays by \<^verbatim>\<open>filter_points\<close>. The cache is left as it is.\<close>

definition nu_offset :: "profile \<Rightarrow> real \<Rightarrow> real \<Rightarrow> real" where
  "nu_offset self cs b1_offset =
     (cs - carrier self) * ppm_to_rads self / (2.0 * pi) - b1_offset"

definition filter_points :: "parameters \<Rightarrow> profile \<Rightarrow> error + profile" where
  "filter_points params self =
     and_then (param_value params (cs_i_a (map_names self))) (\<lambda>cs.
       (let nu_offsets = map (nu_offset self cs) (b1_offsets self);
            keep = map (\<lambda>nu. \<bar>nu\<bar> > on_resonance_filter self * 0.5) nu_offsets
        in and_then (np_select keep (b1_offsets self)) (\<lambda>b1_offsets'.
           and_then (np_select keep (val self)) (\<lambda>val'.
           and_then (np_select keep (err self)) (\<lambda>err'.
             Inr (self\<lparr>b1_offsets := b1_offsets', val := val', err := err'\<rparr>))))))"


text \<open>\<^verbatim>\<open>create_default_parameters\<close>: the twelve entries, in the order of the source.\<close>

definition create_default_parameters :: "profile \<Rightarrow> parameters" where
  "create_default_parameters self =
     add_many []
       [(pb (map_names self), \<lparr>par_value = 0.05, par_vary = Some True, par_min = Some 0.0, par_max = Some 1.0, par_expr = None\<rparr>),
        (pc (map_names self), \<lparr>par_value = 0.05, par_vary = Some True, par_min = Some 0.0, par_max = Some 1.0, par_expr = None\<rparr>),
        (kex_ab (map_names self), \<lparr>par_value = 200.0, par_vary = Some True, par_min = Some 0.0, par_max = None, par_expr = None\<rparr>),
        (kex_bc (map_names self), \<lparr>par_value = 200.0, par_vary = Some True, par_min = Some 0.0, par_max = None, par_expr = None\<rparr>),
        (kex_ac (map_names self), \<lparr>par_value = 0.0, par_vary = Some False, par_min = Some 0.0, par_max = None, par_expr = None\<rparr>),
        (cs_i_a (map_names self), \<lparr>par_value = 0.0, par_vary = Some False, par_min = None, par_max = None, par_expr = None\<rparr>),
        (dw_i_ab (map_names self), \<lparr>par_value = 0.0, par_vary = Some True, par_min = None, par_max = None, par_expr = None\<rparr>),
        (dw_i_ac (map_names self), \<lparr>par_value = 0.0, par_vary = Some True, par_min = None, par_max = None, par_expr = None\<rparr>),
        (lambda_i_a (map_names self), \<lparr>par_value = 10.0, par_vary = Some True, par_min = Some 0.0, par_max = None, par_expr = None\<rparr>),
        (dlambda_i_ab (map_names self), \<lparr>par_value = 0.0, par_vary = Some False, par_min = None, par_max = None, par_expr = None\<rparr>),
        (dlambda_i_ac (map_names self), \<lparr>par_value = 0.0, par_vary = Some False, par_min = None, par_max = None, par_expr = None\<rparr>),
        (rho_i_a (map_names self), \<lparr>par_value = 1.0, par_vary = Some True, par_min = Some 0.0, par_max = None, par_expr = None\<rparr>)]"

text \<open>A profile and keyword arguments to evaluate the definitions on: the default
  values above, two or three measured points.\<close>

definition sample_names :: "string phys" where
  "sample_names =
     \<lparr> pb = ''pb'', pc = ''pc'', kex_ab = ''kex_ab'', kex_bc = ''kex_bc'', kex_ac = ''kex_ac'',
       cs_i_a = ''cs_a'', dw_i_ab = ''dw_ab'', dw_i_ac = ''dw_ac'', lambda_i_a = ''lambda_a'',
       dlambda_i_ab = ''dlambda_ab'', dlambda_i_ac = ''dlambda_ac'', rho_i_a = ''rho_a'' \<rparr>"

definition sample_profile :: "real list \<Rightarrow> real list \<Rightarrow> real list \<Rightarrow> profile" where
  "sample_profile offsets intensities errors =
     \<lparr> profile_name = ''G23N'', b1_offsets = offsets, val = intensities, err = errors,
       h_larmor_frq = 600, temperature = 25, carrier = 0, b1_frq = 25, time_t1 = 0.4,
       experiment_name = ''cest'', on_resonance_filter = 0, ppm_to_rads = 382,
       map_names = sample_names, cache = [] \<rparr>"

definition sample_kwargs :: "real phys" where
  "sample_kwargs =
     \<lparr> pb = 0.05, pc = 0.05, kex_ab = 200, kex_bc = 200, kex_ac = 0, cs_i_a = 0,
       dw_i_ab = 0, dw_i_ac = 0, lambda_i_a = 10, dlambda_i_ab = 0, dlambda_i_ac = 0,
       rho_i_a = 1 \<rparr>"


section \<open>chemex/experiments/cest/plotting.py\<close>

text \<open>\<^verbatim>\<open>np.median([np.median(abs(xi - np.asarray(x))) for xi in x]) * 1.1926\<close>.
  A \<open>nan\<close> among the inner medians makes the outer median \<open>nan\<close>.\<close>

definition sigma_estimator :: "real list \<Rightarrow> real option" where
  "sigma_estimator x =
     (case those (map (\<lambda>xi. np_median (map (\<lambda>xj. \<bar>xi - xj\<bar>) x)) x) of
        None \<Rightarrow> None
      | Some meds \<Rightarrow> map_option (\<lambda>m. m * 1.1926) (np_median meds))"

text \<open>The estimator in the words of the specification: the median absolute deviation
  from the median, times 1.1926.\<close>

definition spec_sigma_estimator :: "real list \<Rightarrow> real option" where
  "spec_sigma_estimator x =
     (case np_median x of
        None \<Rightarrow> None
      | Some m \<Rightarrow> map_option (\<lambda>d. d * 1.1926) (np_median (map (\<lambda>xi. \<bar>xi - m\<bar>) x)))"

text \<open>The median of a non-empty list as a plain number, and the estimator built from
  pairwise distances: the median over \<open>i\<close> of the median over \<open>j\<close> of \<open>|x\<^sub>i - x\<^sub>j|\<close>.\<close>

definition median :: "real list \<Rightarrow> real" where
  "median a =
     (let s = sort a; n = length s in
      if n mod 2 = 1 then s ! (n div 2) else (s ! (n div 2 - 1) + s ! (n div 2)) / 2)"

definition pairwise_sigma :: "real list \<Rightarrow> real" where
  "pairwise_sigma x = median (map (\<lambda>xi. median (map (\<lambda>xj. \<bar>xi - xj\<bar>) x)) x) * 1.1926"


text \<open>The scale and the objective in the words of the specification:
  \<open>\<Sum>(calc\<cdot>val/err\<^sup>2) / \<Sum>((calc/err)\<^sup>2)\<close> and \<open>\<Sum>((scale\<cdot>calc - val)/err)\<^sup>2\<close>, the sums running
  over the points.\<close>

definition ls_scale :: "real list \<Rightarrow> real list \<Rightarrow> real list \<Rightarrow> real" where
  "ls_scale cal vals errs =
     sum_list (map (\<lambda>(c, v, e). c * v / e ^ 2) (zip cal (zip vals errs)))
     / sum_list (map (\<lambda>(c, v, e). (c / e) ^ 2) (zip cal (zip vals errs)))"

definition chi2 :: "real list \<Rightarrow> real list \<Rightarrow> real list \<Rightarrow> real \<Rightarrow> real" where
  "chi2 cal vals errs scale =
     sum_list (map (\<lambda>(c, v, e). ((scale * c - v) / e) ^ 2) (zip cal (zip vals errs)))"


section \<open>chemex/bases: the exchange-model builders\<close>

text \<open>
  The argument \<^verbatim>\<open>map_names\<close>, here \<open>names\<close>, is a dictionary from short to full names. \<^verbatim>\<open>ParameterName(...).to_full_name()\<close>
  belongs to \<^verbatim>\<open>chemex.parameters\<close>, which is not in the sources: the builders take it as
  the function \<open>full_name\<close> of the short name and the keyword arguments. A builder
  returns the lines it printed, the dictionary and the collection.
\<close>

type_synonym name_map = "string \<rightharpoonup> string"
type_synonym full_name = "string \<Rightarrow> (string \<times> real) list \<Rightarrow> string"
type_synonym built = "string list \<times> name_map \<times> parameters"

definition lookup_name :: "name_map \<Rightarrow> string \<Rightarrow> error + string" where
  "lookup_name names key = (case names key of None \<Rightarrow> Inl KeyError | Some n \<Rightarrow> Inr n)"

text \<open>\<^verbatim>\<open>'...'.format(a=..., **map_names)\<close> raises TypeError when the dictionary holds one of
  the keywords given by name.\<close>

definition format_clash :: "name_map \<Rightarrow> string list \<Rightarrow> bool" where
  "format_clash names keys = (\<exists>k \<in> set keys. names k \<noteq> None)"

definition entry ::
  "real \<Rightarrow> bool option \<Rightarrow> real option \<Rightarrow> real option \<Rightarrow> expr option \<Rightarrow> param" where
  "entry v vary lo hi e =
     \<lparr>par_value = v, par_vary = vary, par_min = lo, par_max = hi, par_expr = e\<rparr>"

text \<open>The constants of \<^verbatim>\<open>scipy.constants\<close> (CODATA 2014 values): the gas constant, the
  Boltzmann constant and the Planck constant.\<close>

definition cst_R :: real where "cst_R = 8.3144598"

subsection \<open>chemex/bases/two\_state/exchange\_model.py\<close>







subsection \<open>chemex/bases/three\_state/exchange\_model.py\<close>

definition models_3st :: "string list" where
  "models_3st = [''3st.pb_kex'', ''3st.temperature'']"

definition warning_3st :: "string list" where
  "warning_3st =
     [''Warning: The 'model' option should be either '3st.pb_kex'' @ [CHR 0x27],
      ''or '3st.temperature'.'',
      CHR 0x0A # ''Set it to the default model: '3st.pb_kex'.'']"

text \<open>The pieces the five strings are made of:
  \<^verbatim>\<open>(1.0/({T}+273.15) - 1.0/({T0}+273.15))\<close>,
  \<^verbatim>\<open>exp(-{dH}/{R} * (...))\<close> and \<^verbatim>\<open>exp({dH}/{R} * (...))\<close>.\<close>

definition inv_T_diff :: "real \<Rightarrow> string \<Rightarrow> expr" where
  "inv_T_diff T T0 =
     Sub (Div (Num 1.0) (Add (Num T) (Num 273.15)))
         (Div (Num 1.0) (Add (Name T0) (Num 273.15)))"

definition exp_minus :: "string \<Rightarrow> real \<Rightarrow> real \<Rightarrow> string \<Rightarrow> expr" where
  "exp_minus dH R T T0 = Exp (Mul (Div (Neg (Name dH)) (Num R)) (inv_T_diff T T0))"

definition exp_plus :: "string \<Rightarrow> real \<Rightarrow> real \<Rightarrow> string \<Rightarrow> expr" where
  "exp_plus dH R T T0 = Exp (Mul (Div (Name dH) (Num R)) (inv_T_diff T T0))"

definition update_params_3st ::
  "full_name \<Rightarrow> parameters \<Rightarrow> name_map \<Rightarrow> string \<Rightarrow> real \<Rightarrow> real \<Rightarrow> real \<Rightarrow> error + built" where
  "update_params_3st full_name params names model T p_total l_total =
     (let printed = (if model \<notin> set models_3st then warning_3st else []);
          model = (if model \<notin> set models_3st then ''3st.pb_kex'' else model)
      in
      if model = ''3st.pb_kex'' then Inr (printed, names, params)
      else if model = ''3st.temperature'' then
        (let T0 = full_name ''T0'' []; pb0 = full_name ''pb0'' []; pc0 = full_name ''pc0'' [];
             kexAB0 = full_name ''kexAB0'' []; kexBC0 = full_name ''kexBC0'' [];
             kexAC0 = full_name ''kexAC0'' [];
             dH_AB = full_name ''dH_AB'' []; dH_AC = full_name ''dH_AC'' [];
             dH_TSAB = full_name ''dH_TSAB'' []; dH_TSBC = full_name ''dH_TSBC'' [];
             dH_TSAC = full_name ''dH_TSAC'' [];
             names = names(''T0'' \<mapsto> T0, ''pb0'' \<mapsto> pb0, ''pc0'' \<mapsto> pc0,
                           ''kexAB0'' \<mapsto> kexAB0, ''kexBC0'' \<mapsto> kexBC0, ''kexAC0'' \<mapsto> kexAC0,
                           ''dH_AB'' \<mapsto> dH_AB, ''dH_AC'' \<mapsto> dH_AC, ''dH_TSAB'' \<mapsto> dH_TSAB,
                           ''dH_TSBC'' \<mapsto> dH_TSBC, ''dH_TSAC'' \<mapsto> dH_TSAC);
             R = cst_R * 0.001;
             pa0 = Sub (Sub (Num 1.0) (Name pb0)) (Name pc0);
             K_AB = Mul (Div (Name pb0) pa0) (exp_minus dH_AB R T T0);
             K_AC = Mul (Div (Name pc0) pa0) (exp_minus dH_AC R T T0);
             pb_e = Div K_AB (Add (Add (Num 1.0) K_AB) K_AC);
             pc_e = Div K_AC (Add (Add (Num 1.0) K_AB) K_AC);
             kex_ab_e =
               Mul (Mul (Name kexAB0) (exp_minus dH_TSAB R T T0))
                   (Add (Div (Name pb0) (Sub (Num 1.0) (Name pc0)))
                        (Mul (Div pa0 (Sub (Num 1.0) (Name pc0))) (exp_plus dH_AB R T T0)));
             kex_bc_e =
               Mul (Mul (Name kexBC0) (exp_minus dH_TSBC R T T0))
                   (Add (Mul (Div (Name pc0) (Add (Name pb0) (Name pc0))) (exp_plus dH_AB R T T0))
                        (Mul (Div (Name pb0) (Add (Name pb0) (Name pc0))) (exp_plus dH_AC R T T0)));
             kex_ac_e =
               Mul (Mul (Name kexAC0) (exp_minus dH_TSAC R T T0))
                   (Add (Div (Name pc0) (Sub (Num 1.0) (Name pb0)))
                        (Mul (Div pa0 (Sub (Num 1.0) (Name pb0))) (exp_plus dH_AC R T T0)))
         in if format_clash names [''R'', ''T''] then Inl TypeError
            else
              and_then (lookup_name names ''pb'') (\<lambda>pb_name.
              and_then (lookup_name names ''pc'') (\<lambda>pc_name.
              and_then (lookup_name names ''kex_ab'') (\<lambda>kex_ab_name.
              and_then (lookup_name names ''kex_bc'') (\<lambda>kex_bc_name.
              and_then (lookup_name names ''kex_ac'') (\<lambda>kex_ac_name.
                Inr (printed, names,
                     add_many params
                       [(T0, entry 25 (Some False) None None None),
                        (pb0, entry 0.05 (Some True) (Some 0.0) (Some 1.0) None),
                        (pc0, entry 0.05 (Some True) (Some 0.0) (Some 1.0) None),
                        (kexAB0, entry 100.0 (Some True) (Some 0.0) None None),
                        (kexBC0, entry 100.0 (Some True) (Some 0.0) None None),
                        (kexAC0, entry 0.0 (Some False) (Some 0.0) None None),
                        (dH_AB, entry 0.0 (Some True) (Some (- 200)) (Some 200) None),
                        (dH_AC, entry 0.0 (Some True) (Some (- 200)) (Some 200) None),
                        (dH_TSAB, entry 10.0 (Some True) (Some 0.0) (Some 200) None),
                        (dH_TSBC, entry 10.0 (Some True) (Some 0.0) (Some 200) None),
                        (dH_TSAC, entry 10.0 (Some False) (Some 0.0) (Some 200) None),
                        (pb_name, entry 0.0 None (Some 0.0) (Some 1.0) (Some pb_e)),
                        (pc_name, entry 0.0 None (Some 0.0) (Some 1.0) (Some pc_e)),
                        (kex_ab_name, entry 0.0 None (Some 0.0) None (Some kex_ab_e)),
                        (kex_bc_name, entry 0.0 None (Some 0.0) None (Some kex_bc_e)),
                        (kex_ac_name, entry 0.0 None (Some 0.0) None (Some kex_ac_e))])))))))
      else Inr (printed, names, params))"

text \<open>The value lmfit computes for a derived parameter, given the values \<open>env\<close> of the
  parameters its expression names: the parameter is found through its short name.\<close>

definition eval_registered :: "(string \<rightharpoonup> real) \<Rightarrow> error + built \<Rightarrow> string \<Rightarrow> error + real" where
  "eval_registered env result key =
     and_then result (\<lambda>(printed, names, params).
     and_then (lookup_name names key) (\<lambda>full.
       case map_of params full of
         None \<Rightarrow> Inl KeyError
       | Some p \<Rightarrow> (case par_expr p of None \<Rightarrow> eval env (Name full) | Some e \<Rightarrow> eval env e)))"




text \<open>Names and reference values to evaluate the three-state model on: the short names
  stand for themselves.\<close>

definition derived_names :: name_map where
  "derived_names =
     [''pb'' \<mapsto> ''pb'', ''pc'' \<mapsto> ''pc'', ''kex_ab'' \<mapsto> ''kex_ab'',
      ''kex_bc'' \<mapsto> ''kex_bc'', ''kex_ac'' \<mapsto> ''kex_ac'']"

definition reference_env :: "string \<rightharpoonup> real" where
  "reference_env =
     [''T0'' \<mapsto> 25, ''pb0'' \<mapsto> 0.05, ''pc0'' \<mapsto> 0.05,
      ''kexAB0'' \<mapsto> 100, ''kexBC0'' \<mapsto> 150, ''kexAC0'' \<mapsto> 0,
      ''dH_AB'' \<mapsto> 5, ''dH_AC'' \<mapsto> - 5,
      ''dH_TSAB'' \<mapsto> 10, ''dH_TSBC'' \<mapsto> 10, ''dH_TSAC'' \<mapsto> 10]"


section \<open>chemex/fitting.py\<close>





















section \<open>chemex/experiments/cest/plotting.py: the profiles to plot\<close>

text \<open>\<^verbatim>\<open>np.mean\<close> of an array: \<open>nan\<close> when it is empty. Division of numpy floats, either of
  which may already be \<open>nan\<close> or \<open>inf\<close>; the divisors met here are finite or \<open>nan\<close>.\<close>

definition np_mean :: "real list \<Rightarrow> real option" where
  "np_mean a = (if a = [] then None else Some (sum_list a / real (length a)))"

definition fdiv :: "real option \<Rightarrow> real option \<Rightarrow> real option" where
  "fdiv a b = (case (a, b) of (Some x, Some y) \<Rightarrow> np_div x y | _ \<Rightarrow> None)"

text \<open>\<^verbatim>\<open>set_lim\<close>: the builtin \<^verbatim>\<open>min\<close> and \<^verbatim>\<open>max\<close> raise ValueError on an empty sequence.\<close>

definition set_lim :: "real list \<Rightarrow> real \<Rightarrow> error + real \<times> real" where
  "set_lim vs scale =
     (if vs = [] then Inl ValueError
      else (let v_min = Min (set vs); v_max = Max (set vs);
                margin = (v_max - v_min) * scale
            in Inr (v_min - margin, v_max + margin)))"

text \<open>\<^verbatim>\<open>np.linspace(start, stop, num)\<close>, end point included.\<close>

definition np_linspace :: "real \<Rightarrow> real \<Rightarrow> nat \<Rightarrow> real list" where
  "np_linspace start stop num =
     (if num = 1 then [start]
      else map (\<lambda>i. start + real i * ((stop - start) / real (num - 1))) [0..<num])"

text \<open>The tuple \<^verbatim>\<open>compute_profiles\<close> stores for a peak.\<close>

record plot_entry =
  b1_ppm_exp :: "real option list"
  mag_cal :: "real option list"
  mag_exp :: "real option list"
  mag_err :: "real option list"
  b1_ppm_fit :: "real option list"
  mag_fit :: "real option list"
  cs_value :: real
  dw_value :: real

text \<open>
  The body of the loop of \<^verbatim>\<open>compute_profiles\<close>. It calls
  \<^verbatim>\<open>profile.calculate_synthetic_profile(params, b1_offsets)\<close>, a method that the class
  \<^verbatim>\<open>Profile\<close> of \<^verbatim>\<open>3st_fast.py\<close> does not define: the attribute exists only if the base
  class, which is not in the sources, provides it. \<open>synthetic\<close> is that method when it
  exists; \<open>None\<close> makes the attribute access raise AttributeError.
\<close>

type_synonym synthetic_method =
  "parameters \<Rightarrow> real list \<Rightarrow> profile \<Rightarrow> error + real option list"

definition compute_profile ::
  "propagator \<Rightarrow> synthetic_method option \<Rightarrow> parameters \<Rightarrow> profile
     \<Rightarrow> error + plot_entry \<times> profile" where
  "compute_profile propagate synthetic params profile =
     (let keep = map (\<lambda>b. b > - 10000 \<and> b < 10000) (b1_offsets profile);
          keep_ref = map Not keep
      in
      and_then (np_select keep_ref (val profile)) (\<lambda>val_refs.
      let val_ref = np_mean val_refs in
      and_then (np_select keep (b1_offsets_to_ppm profile None)) (\<lambda>b1_ppm_exp.
      and_then (calculate_profile propagate params None profile) (\<lambda>(cal, profile).
      and_then (np_select keep cal) (\<lambda>cal_on.
      and_then (np_select keep (val profile)) (\<lambda>val_on.
      and_then (np_select keep (err profile)) (\<lambda>err_on.
      and_then (np_select keep (b1_offsets profile)) (\<lambda>b1_on.
      and_then (set_lim b1_on 0.02) (\<lambda>(b1_offsets_min, b1_offsets_max).
      let grid = np_linspace b1_offsets_min b1_offsets_max 500;
          b1_ppm_fit = b1_offsets_to_ppm profile (Some grid)
      in
      and_then (case synthetic of
                  None \<Rightarrow> Inl AttributeError
                | Some synth \<Rightarrow> synth params grid profile) (\<lambda>curve.
      and_then (param_value params (cs_i_a (map_names profile))) (\<lambda>cs.
      and_then (param_value params (dw_i_ab (map_names profile))) (\<lambda>dw.
        Inr (\<lparr> b1_ppm_exp = b1_ppm_exp,
                mag_cal = map (\<lambda>v. fdiv v val_ref) cal_on,
                mag_exp = map (\<lambda>v. fdiv (Some v) val_ref) val_on,
                mag_err = map (\<lambda>e. fdiv (Some e) (map_option abs val_ref)) err_on,
                b1_ppm_fit = b1_ppm_fit,
                mag_fit = map (\<lambda>v. fdiv v val_ref) curve,
                cs_value = cs, dw_value = dw \<rparr>, profile)))))))))))))"





section \<open>Facts about the helpers\<close>


subsection \<open>Sequencing\<close>

lemma and_then_Inr [simp]: "and_then (Inr x) f = f x"
  by (simp add: and_then_def)

lemma and_then_Inl [simp]: "and_then (Inl e) f = Inl e"
  by (simp add: and_then_def)

lemma and_then_eq_Inr: "and_then r f = Inr y \<longleftrightarrow> (\<exists>x. r = Inr x \<and> f x = Inr y)"
  by (cases r) simp_all

subsection \<open>The loop of the core prediction\<close>




subsection \<open>Medians\<close>

lemma np_median_nonempty: "a \<noteq> [] \<Longrightarrow> np_median a = Some (median a)"
proof -
  assume "a \<noteq> []"
  then have "length (sort a) \<noteq> 0" by simp
  then show ?thesis
    unfolding np_median_def median_def Let_def by presburger
qed

lemma those_map_Some: "those (map (\<lambda>x. Some (f x)) xs) = Some (map f xs)"
  by (induction xs) simp_all

lemma median_nonneg:
  assumes "a \<noteq> []" and "\<forall>v \<in> set a. 0 \<le> v"
  shows "0 \<le> median a"
proof -
  let ?s = "sort a"
  have len: "0 < length ?s" using assms(1) by simp
  have nn: "\<And>i. i < length ?s \<Longrightarrow> 0 \<le> ?s ! i"
  proof -
    fix i assume "i < length ?s"
    then have "?s ! i \<in> set ?s" by (rule nth_mem)
    then show "0 \<le> ?s ! i" using assms(2) by simp
  qed
  have a: "0 \<le> ?s ! (length ?s div 2)" using len by (intro nn) simp
  have b: "0 \<le> ?s ! (length ?s div 2 - 1)" using len by (intro nn) arith
  show ?thesis using a b by (simp add: median_def Let_def)
qed


subsection \<open>Boolean masks and the filter\<close>

lemma np_select_map_pred: "np_select (map P xs) xs = Inr (filter P xs)"
proof -
  have "map snd (filter fst (zip (map P xs) xs)) = filter P xs"
    by (induction xs) simp_all
  then show ?thesis by (simp add: np_select_def)
qed

lemma np_select_zip:
  "length ys = length xs \<Longrightarrow>
   np_select (map P xs) ys = Inr (map snd (filter (\<lambda>(x, y). P x) (zip xs ys)))"
proof -
  assume len: "length ys = length xs"
  then have "map snd (filter fst (zip (map P xs) ys))
               = map snd (filter (\<lambda>(x, y). P x) (zip xs ys))"
    by (induction xs ys rule: list_induct2') simp_all
  with len show ?thesis by (simp add: np_select_def)
qed

lemma np_select_length:
  "np_select m ys = Inr zs \<Longrightarrow> length zs = length (filter id m)"
proof -
  assume sel: "np_select m ys = Inr zs"
  then have len: "length m = length ys"
    by (simp add: np_select_def split: if_splits)
  then have "length (filter fst (zip m ys)) = length (filter id m)"
    by (induction m ys rule: list_induct2) simp_all
  with sel len show ?thesis by (auto simp: np_select_def)
qed

lemma np_select_all:
  assumes "length m = length ys" and "\<forall>b \<in> set m. b"
  shows "np_select m ys = Inr ys"
proof -
  from assms have "map snd (filter fst (zip m ys)) = ys"
    by (induction m ys rule: list_induct2) auto
  with assms(1) show ?thesis by (simp add: np_select_def)
qed

lemma filter_points_Inr:
  assumes "filter_points params self = Inr self'"
  obtains cs where "param_value params (cs_i_a (map_names self)) = Inr cs"
    and "b1_offsets self' = filter (\<lambda>b. \<bar>nu_offset self cs b\<bar> > on_resonance_filter self * 0.5) (b1_offsets self)"
    and "np_select (map (\<lambda>b. \<bar>nu_offset self cs b\<bar> > on_resonance_filter self * 0.5) (b1_offsets self)) (val self) = Inr (val self')"
    and "np_select (map (\<lambda>b. \<bar>nu_offset self cs b\<bar> > on_resonance_filter self * 0.5) (b1_offsets self)) (err self) = Inr (err self')"
    and "self' = self\<lparr>b1_offsets := b1_offsets self', val := val self', err := err self'\<rparr>"
  using assms
  unfolding filter_points_def Let_def
  by (auto simp: and_then_eq_Inr np_select_map_pred comp_def)

lemma filter_points_total:
  assumes "length (val self) = length (b1_offsets self)"
    and "length (err self) = length (b1_offsets self)"
    and "param_value params (cs_i_a (map_names self)) = Inr cs"
  shows "filter_points params self =
           Inr (self\<lparr>b1_offsets := filter (\<lambda>b. \<bar>nu_offset self cs b\<bar> > on_resonance_filter self * 0.5) (b1_offsets self),
                    val := map snd (filter (\<lambda>(b, v). \<bar>nu_offset self cs b\<bar> > on_resonance_filter self * 0.5) (zip (b1_offsets self) (val self))),
                    err := map snd (filter (\<lambda>(b, v). \<bar>nu_offset self cs b\<bar> > on_resonance_filter self * 0.5) (zip (b1_offsets self) (err self)))\<rparr>)"
  using assms
  unfolding filter_points_def Let_def
  by (simp add: np_select_map_pred np_select_zip comp_def)

lemmas sample_defs =
  sample_profile_def sample_names_def sample_kwargs_def create_default_parameters_def add_many_def


subsection \<open>The least-squares scale\<close>

lemma np_sum_map_Some: "np_sum (map Some xs) = Some (sum_list xs)"
  using those_map_Some [of "\<lambda>x. x" xs] by (simp add: np_sum_def)

lemma np_zip_same_length: "length xs = length ys \<Longrightarrow> np_zip xs ys = Inr (zip xs ys)"
  by (simp add: np_zip_def)

lemma scale_numerator_terms:
  assumes "length cal = length vals" and "length vals = length errs"
    and "\<forall>e \<in> set errs. e \<noteq> 0"
  shows "map (\<lambda>(n, e2). np_div n e2)
           (zip (map (\<lambda>(c, v). c * v) (zip cal vals)) (map (\<lambda>e. e ^ 2) errs))
         = map Some (map (\<lambda>(c, v, e). c * v / e ^ 2) (zip cal (zip vals errs)))"
  using assms by (induction cal vals errs rule: list_induct3) (simp_all add: np_div_def)

lemma scale_denominator_terms:
  assumes "length cal = length vals" and "length vals = length errs"
    and "\<forall>e \<in> set errs. e \<noteq> 0"
  shows "map (\<lambda>(c, e). map_option (\<lambda>q. q ^ 2) (np_div c e)) (zip cal errs)
         = map Some (map (\<lambda>(c, v, e). (c / e) ^ 2) (zip cal (zip vals errs)))"
  using assms by (induction cal vals errs rule: list_induct3) (simp_all add: np_div_def)

lemma sum_squares_pos:
  fixes cal vals errs :: "real list"
  assumes "length cal = length vals" and "length vals = length errs"
    and "cal \<noteq> []" and "\<forall>c \<in> set cal. c \<noteq> 0" and "\<forall>e \<in> set errs. e \<noteq> 0"
  shows "0 < sum_list (map (\<lambda>(c, v, e). (c / e) ^ 2) (zip cal (zip vals errs)))"
proof -
  have nonneg: "0 \<le> sum_list (map (\<lambda>(c, v, e :: real). (c / e) ^ 2) ps)" for ps :: "(real \<times> real \<times> real) list"
    by (induction ps) auto
  from assms obtain c v e cal' vals' errs'
    where split: "cal = c # cal'" "vals = v # vals'" "errs = e # errs'"
    by (cases cal; cases vals; cases errs) auto
  from split assms(4,5) have "c / e \<noteq> 0" by simp
  then have "0 < (c / e) ^ 2" by (simp only: zero_less_power2 not_False_eq_True)
  from add_pos_nonneg [OF this nonneg [of "zip cal' (zip vals' errs')"]]
  show ?thesis by (simp only: split zip_Cons_Cons list.map case_prod_conv sum_list.Cons)
qed

lemma calculate_scale_value:
  assumes "length (val self) = length cal" and "length (err self) = length cal"
    and "cal \<noteq> []" and "\<forall>c \<in> set cal. c \<noteq> 0" and "\<forall>e \<in> set (err self). e \<noteq> 0"
  shows "calculate_scale self cal = Inr (Some (ls_scale cal (val self) (err self)))"
proof -
  let ?A = "sum_list (map (\<lambda>(c, v, e). (c / e) ^ 2) (zip cal (zip (val self) (err self))))"
  let ?B = "sum_list (map (\<lambda>(c, v, e). c * v / e ^ 2) (zip cal (zip (val self) (err self))))"
  have l1: "length cal = length (val self)" and l2: "length (val self) = length (err self)"
    using assms(1,2) by simp_all
  have pos: "0 < ?A"
    using l1 l2 assms(3-5) by (rule sum_squares_pos)
  have ne: "zip cal (err self) \<noteq> []"
    using assms(2,3) by (cases cal; cases "err self") auto
  have z1: "np_zip cal (val self) = Inr (zip cal (val self))"
    using l1 by (rule np_zip_same_length)
  have z2: "np_zip (map (\<lambda>(c, v). c * v) (zip cal (val self))) (map (\<lambda>e. e ^ 2) (err self))
              = Inr (zip (map (\<lambda>(c, v). c * v) (zip cal (val self))) (map (\<lambda>e. e ^ 2) (err self)))"
    using l1 l2 by (intro np_zip_same_length) simp
  have z3: "np_zip cal (err self) = Inr (zip cal (err self))"
    using l1 l2 by (intro np_zip_same_length) simp
  have num: "np_sum (map (\<lambda>(n, e2). np_div n e2)
               (zip (map (\<lambda>(c, v). c * v) (zip cal (val self))) (map (\<lambda>e. e ^ 2) (err self))))
             = Some ?B"
    by (simp only: scale_numerator_terms [OF l1 l2 assms(5)] np_sum_map_Some)
  have den: "np_sum (map (\<lambda>(c, e). map_option (\<lambda>q. q ^ 2) (np_div c e)) (zip cal (err self)))
             = Some ?A"
    by (simp only: scale_denominator_terms [OF l1 l2 assms(5)] np_sum_map_Some)
  have "calculate_scale self cal = Inr (np_div ?B ?A)"
    unfolding calculate_scale_def z1 z2 z3 and_then_Inr Let_def num den
    using ne by simp
  then show ?thesis
    using pos by (simp add: np_div_def ls_scale_def)
qed

lemma chi2_quadratic:
  "chi2 cal vals errs t =
     t ^ 2 * sum_list (map (\<lambda>(c, v, e). (c / e) ^ 2) (zip cal (zip vals errs)))
     - 2 * t * sum_list (map (\<lambda>(c, v, e). c * v / e ^ 2) (zip cal (zip vals errs)))
     + sum_list (map (\<lambda>(c, v, e). (v / e) ^ 2) (zip cal (zip vals errs)))"
proof -
  have "sum_list (map (\<lambda>(c, v, e). ((t * c - v) / e) ^ 2) ps) =
     t ^ 2 * sum_list (map (\<lambda>(c, v, e). (c / e) ^ 2) ps)
     - 2 * t * sum_list (map (\<lambda>(c, v, e). c * v / e ^ 2) ps)
     + sum_list (map (\<lambda>(c, v, e). (v / e) ^ 2) ps)" for ps :: "(real \<times> real \<times> real) list"
  proof (induction ps)
    case Nil
    then show ?case by simp
  next
    case (Cons p ps)
    obtain c v e where p: "p = (c, v, e)" by (cases p)
    have "((t * c - v) / e) ^ 2 = t ^ 2 * (c / e) ^ 2 - 2 * t * (c * v / e ^ 2) + (v / e) ^ 2"
      by (simp add: power2_eq_square diff_divide_distrib algebra_simps)
    then show ?case using Cons.IH by (simp add: p algebra_simps)
  qed
  then show ?thesis by (simp add: chi2_def)
qed

lemma chi2_shift:
  assumes "0 < sum_list (map (\<lambda>(c, v, e). (c / e) ^ 2) (zip cal (zip vals errs)))"
  shows "chi2 cal vals errs (ls_scale cal vals errs + eps) - chi2 cal vals errs (ls_scale cal vals errs)
         = eps ^ 2 * sum_list (map (\<lambda>(c, v, e). (c / e) ^ 2) (zip cal (zip vals errs)))"
proof -
  let ?A = "sum_list (map (\<lambda>(c, v, e). (c / e) ^ 2) (zip cal (zip vals errs)))"
  let ?B = "sum_list (map (\<lambda>(c, v, e). c * v / e ^ 2) (zip cal (zip vals errs)))"
  have s: "ls_scale cal vals errs * ?A = ?B"
    using assms by (simp add: ls_scale_def)
  have "(ls_scale cal vals errs + eps) ^ 2 * ?A - 2 * (ls_scale cal vals errs + eps) * ?B
        - ((ls_scale cal vals errs) ^ 2 * ?A - 2 * ls_scale cal vals errs * ?B)
        = eps ^ 2 * ?A + 2 * eps * (ls_scale cal vals errs * ?A - ?B)"
    by (simp add: power2_eq_square algebra_simps)
  then show ?thesis
    unfolding chi2_quadratic s by simp
qed


lemma calculate_profile_cached_data:
  assumes "calculate_profile_cached propagate self kw = Inr (values, self1)"
  shows "val self1 = val self" and "err self1 = err self" and "b1_offsets self1 = b1_offsets self"
  using assms
  by (auto simp: calculate_profile_cached_def and_then_eq_Inr split: option.splits)

lemma calculate_scale_data:
  "val self1 = val self \<Longrightarrow> err self1 = err self \<Longrightarrow>
   calculate_scale self1 cal = calculate_scale self cal"
  by (simp add: calculate_scale_def)


subsection \<open>Expressions and the builders\<close>

lemma map_of_add_many: "map_of (add_many params entries) = map_of (rev entries @ params)"
proof -
  have "map_of (fold (\<lambda>(n, p). AList.update n p) entries ps) = map_of (rev entries @ ps)" for ps
  proof (induction entries arbitrary: ps)
    case Nil
    then show ?case by simp
  next
    case (Cons e entries)
    obtain n p where e: "e = (n, p)" by (cases e)
    show ?case
      by (simp add: Cons.IH e map_add_def update_conv' fun_eq_iff split: option.splits)
  qed
  then show ?thesis by (simp add: add_many_def)
qed

lemma lift2_Inr [simp]: "lift2 f (Inr x) (Inr y) = f x y"
  by (simp add: lift2_def)





lemma lookup_name_Some [simp]: "names key = Some n \<Longrightarrow> lookup_name names key = Inr n"
  by (simp add: lookup_name_def)


lemma eval_inv_T_diff:
  assumes "env T0 = Some T" and "T + 273.15 \<noteq> 0"
  shows "eval env (inv_T_diff T T0) = Inr 0"
  using assms by (simp add: inv_T_diff_def py_truediv_def)

lemma eval_exp_minus:
  assumes "env T0 = Some T" and "T + 273.15 \<noteq> 0" and "env dH = Some h" and "R \<noteq> 0"
  shows "eval env (exp_minus dH R T T0) = Inr 1"
  using assms by (simp add: exp_minus_def eval_inv_T_diff py_truediv_def)

lemma eval_exp_plus:
  assumes "env T0 = Some T" and "T + 273.15 \<noteq> 0" and "env dH = Some h" and "R \<noteq> 0"
  shows "eval env (exp_plus dH R T T0) = Inr 1"
  using assms by (simp add: exp_plus_def eval_inv_T_diff py_truediv_def)

lemma cst_R_nonzero: "cst_R * 0.001 \<noteq> 0"
  by (simp add: cst_R_def)


subsection \<open>Clusters and their minimizations\<close>









subsection \<open>What the plotting code needs from the profile\<close>






section \<open>The robust standard deviation\<close>

text \<open>
  Claim C4, as amended. For every non-empty list \<open>x\<close>, \<open>sigma_estimator x\<close> is a number
  (not \<open>nan\<close>): the median over \<open>i\<close> of the median over \<open>j\<close> of \<open>|x\<^sub>i - x\<^sub>j|\<close>, times 1.1926.
  It is never negative.
\<close>

theorem sigma_estimator_pairwise:
  "x \<noteq> [] \<Longrightarrow> sigma_estimator x = Some (pairwise_sigma x) \<and> 0 \<le> pairwise_sigma x"
proof -
  assume ne: "x \<noteq> []"
  let ?inner = "\<lambda>xi. median (map (\<lambda>xj. \<bar>xi - xj\<bar>) x)"
  have inner: "map (\<lambda>xi. np_median (map (\<lambda>xj. \<bar>xi - xj\<bar>) x)) x = map (\<lambda>xi. Some (?inner xi)) x"
    using ne by (simp add: np_median_nonempty)
  have eq: "sigma_estimator x = Some (pairwise_sigma x)"
    using ne
    by (simp add: sigma_estimator_def inner those_map_Some np_median_nonempty pairwise_sigma_def)
  have "\<forall>v \<in> set (map ?inner x). 0 \<le> v"
    using ne by (auto intro!: median_nonneg)
  then have "0 \<le> median (map ?inner x)"
    using ne by (intro median_nonneg) simp_all
  then have "0 \<le> pairwise_sigma x"
    by (simp add: pairwise_sigma_def)
  with eq show ?thesis by simp
qed

theorem sigma_estimator_pairwise_witness:
  "[0, 1, 2, 10] \<noteq> ([] :: real list)
   \<and> sigma_estimator [0, 1, 2, 10] = Some (pairwise_sigma [0, 1, 2, 10])
   \<and> 0 \<le> pairwise_sigma [0, 1, 2, 10]"
  using sigma_estimator_pairwise [of "[0, 1, 2, 10]"] by simp

text \<open>On the sample 0, 1, 2, 10 the code gives \<open>1.5 * 1.1926\<close>, the median absolute
  deviation from the median gives \<open>1 * 1.1926\<close>.\<close>

theorem sigma_estimator_counterexample:
  "sigma_estimator [0, 1, 2, 10] = Some (1.5 * 1.1926)
   \<and> spec_sigma_estimator [0, 1, 2, 10] = Some (1 * 1.1926)
   \<and> sigma_estimator [0, 1, 2, 10] \<noteq> spec_sigma_estimator [0, 1, 2, 10]"
  by (simp add: sigma_estimator_def spec_sigma_estimator_def np_median_def)

section \<open>The reference branch of the core prediction\<close>





section \<open>Filtering the points near the resonance\<close>

text \<open>
  Claim C9. \<^verbatim>\<open>filter_points\<close> is idempotent: for every profile and every parameter
  collection, when a first application returns, a second application with the same
  parameters returns the same profile, with the offsets, values and errors the first one
  left. The first application returns whenever the three arrays have one length and the
  collection holds the parameter \<open>cs_a\<close> of the profile.
\<close>

theorem filter_points_idempotent:
  "(length (val self) = length (b1_offsets self)
      \<and> length (err self) = length (b1_offsets self)
      \<and> map_of params (cs_i_a (map_names self)) \<noteq> None
     \<longrightarrow> (\<exists>self'. filter_points params self = Inr self'))
   \<and> (\<forall>self'. filter_points params self = Inr self'
          \<longrightarrow> filter_points params self' = Inr self')"
proof (intro conjI impI allI)
  assume "length (val self) = length (b1_offsets self)
      \<and> length (err self) = length (b1_offsets self)
      \<and> map_of params (cs_i_a (map_names self)) \<noteq> None"
  then obtain cs where "length (val self) = length (b1_offsets self)"
    "length (err self) = length (b1_offsets self)"
    "param_value params (cs_i_a (map_names self)) = Inr cs"
    by (auto simp: param_value_def)
  from filter_points_total [OF this]
  show "\<exists>self'. filter_points params self = Inr self'" by blast
next
  fix self'
  assume run: "filter_points params self = Inr self'"
  then obtain cs where cs: "param_value params (cs_i_a (map_names self)) = Inr cs"
    and b1: "b1_offsets self' = filter (\<lambda>b. \<bar>nu_offset self cs b\<bar> > on_resonance_filter self * 0.5) (b1_offsets self)"
    and v: "np_select (map (\<lambda>b. \<bar>nu_offset self cs b\<bar> > on_resonance_filter self * 0.5) (b1_offsets self)) (val self) = Inr (val self')"
    and e: "np_select (map (\<lambda>b. \<bar>nu_offset self cs b\<bar> > on_resonance_filter self * 0.5) (b1_offsets self)) (err self) = Inr (err self')"
    and upd: "self' = self\<lparr>b1_offsets := b1_offsets self', val := val self', err := err self'\<rparr>"
    by (rule filter_points_Inr)
  let ?P = "\<lambda>b. \<bar>nu_offset self cs b\<bar> > on_resonance_filter self * 0.5"
  have same: "map_names self' = map_names self" "carrier self' = carrier self"
    "ppm_to_rads self' = ppm_to_rads self" "on_resonance_filter self' = on_resonance_filter self"
    by (subst upd, simp)+
  have nu: "nu_offset self' cs = nu_offset self cs"
    by (simp add: nu_offset_def same fun_eq_iff)
  have count: "length (filter id (map ?P (b1_offsets self))) = length (b1_offsets self')"
    by (simp add: b1 filter_map comp_def)
  have lv: "length (val self') = length (b1_offsets self')"
    using np_select_length [OF v] count by simp
  have le: "length (err self') = length (b1_offsets self')"
    using np_select_length [OF e] count by simp
  have keep: "\<forall>b \<in> set (b1_offsets self'). ?P b"
    by (simp add: b1)
  have sel: "\<And>ys :: real list. length ys = length (b1_offsets self') \<Longrightarrow>
      map snd (filter (\<lambda>(b, v). ?P b) (zip (b1_offsets self') ys)) = ys"
  proof -
    fix ys :: "real list"
    assume "length ys = length (b1_offsets self')"
    moreover have "\<forall>p \<in> set (zip (b1_offsets self') ys). (\<lambda>(b, v). ?P b) p"
      using keep by (auto dest: set_zip_leftD)
    ultimately show "map snd (filter (\<lambda>(b, v). ?P b) (zip (b1_offsets self') ys)) = ys"
      by simp
  qed
  have fb: "filter ?P (b1_offsets self') = b1_offsets self'"
    using keep by simp
  have "filter_points params self' =
          Inr (self'\<lparr>b1_offsets := filter ?P (b1_offsets self'),
                     val := map snd (filter (\<lambda>(b, v). ?P b) (zip (b1_offsets self') (val self'))),
                     err := map snd (filter (\<lambda>(b, v). ?P b) (zip (b1_offsets self') (err self')))\<rparr>)"
    using filter_points_total [of self' params cs] lv le cs by (simp only: same nu)
  also have "\<dots> = Inr (self'\<lparr>b1_offsets := b1_offsets self', val := val self', err := err self'\<rparr>)"
    by (simp only: fb sel [OF lv] sel [OF le])
  also have "\<dots> = Inr self'" by simp
  finally show "filter_points params self' = Inr self'" .
qed

theorem filter_points_idempotent_witness:
  "filter_points
     (create_default_parameters (sample_profile [] [] []))
     ((sample_profile [- 20000, 0, 500, 900] [1.8, 0.9, 1.5, 1.7] [0.1, 0.1, 0.1, 0.1])
        \<lparr>on_resonance_filter := 1200\<rparr>)
   = Inr ((sample_profile [- 20000, 900] [1.8, 1.7] [0.1, 0.1]) \<lparr>on_resonance_filter := 1200\<rparr>)
   \<and> filter_points
     (create_default_parameters (sample_profile [] [] []))
     ((sample_profile [- 20000, 900] [1.8, 1.7] [0.1, 0.1]) \<lparr>on_resonance_filter := 1200\<rparr>)
   = Inr ((sample_profile [- 20000, 900] [1.8, 1.7] [0.1, 0.1]) \<lparr>on_resonance_filter := 1200\<rparr>)"
proof -
  have first: "filter_points
     (create_default_parameters (sample_profile [] [] []))
     ((sample_profile [- 20000, 0, 500, 900] [1.8, 0.9, 1.5, 1.7] [0.1, 0.1, 0.1, 0.1])
        \<lparr>on_resonance_filter := 1200\<rparr>)
   = Inr ((sample_profile [- 20000, 900] [1.8, 1.7] [0.1, 0.1]) \<lparr>on_resonance_filter := 1200\<rparr>)"
    by (simp add: filter_points_def sample_defs param_value_def nu_offset_def np_select_def)
  with filter_points_idempotent
    [of "(sample_profile [- 20000, 0, 500, 900] [1.8, 0.9, 1.5, 1.7] [0.1, 0.1, 0.1, 0.1])
           \<lparr>on_resonance_filter := 1200\<rparr>"
        "create_default_parameters (sample_profile [] [] [])"]
  show ?thesis by blast
qed

text \<open>
  Claim C10. With the default on-resonance width, 0, the mask
  \<^verbatim>\<open>abs(nu_offsets) > self.on_resonance_filter * 0.5\<close> keeps exactly the points whose
  offset from the resonance is not zero: \<^verbatim>\<open>filter_points\<close> discards every point lying
  exactly at the fitted resonance, together with its value and its error.
\<close>

theorem filter_points_zero_width:
  assumes "exp_details ''on_resonance_filter'' = None"
    and "init_on_resonance_filter exp_details = Inr (on_resonance_filter self)"
    and "length (val self) = length (b1_offsets self)"
    and "length (err self) = length (b1_offsets self)"
    and "param_value params (cs_i_a (map_names self)) = Inr cs"
  shows "\<exists>self'. filter_points params self = Inr self'
           \<and> b1_offsets self' = filter (\<lambda>b. nu_offset self cs b \<noteq> 0) (b1_offsets self)
           \<and> val self' = map snd (filter (\<lambda>(b, v). nu_offset self cs b \<noteq> 0)
                                     (zip (b1_offsets self) (val self)))
           \<and> err self' = map snd (filter (\<lambda>(b, e). nu_offset self cs b \<noteq> 0)
                                     (zip (b1_offsets self) (err self)))
           \<and> (\<forall>b \<in> set (b1_offsets self'). nu_offset self cs b \<noteq> 0)"
proof -
  have width: "on_resonance_filter self = 0"
    using assms(1,2) by (simp add: init_on_resonance_filter_def check_par_def)
  show ?thesis
    using filter_points_total [OF assms(3-5)] by (simp add: width)
qed

theorem filter_points_zero_width_witness:
  "filter_points (create_default_parameters (sample_profile [] [] []))
     (sample_profile [- 20000, 0, 500] [1.8, 0.9, 1.5] [0.1, 0.1, 0.1])
   = Inr (sample_profile [- 20000, 500] [1.8, 1.5] [0.1, 0.1])
   \<and> nu_offset (sample_profile [- 20000, 0, 500] [1.8, 0.9, 1.5] [0.1, 0.1, 0.1]) 0 0 = 0"
proof -
  let ?self = "sample_profile [- 20000, 0, 500] [1.8, 0.9, 1.5] [0.1, 0.1, 0.1]"
  let ?params = "create_default_parameters (sample_profile [] [] [])"
  have h1: "(Map.empty :: string \<rightharpoonup> real) ''on_resonance_filter'' = None" by simp
  have h2: "init_on_resonance_filter Map.empty = Inr (on_resonance_filter ?self)"
    by (simp add: init_on_resonance_filter_def check_par_def sample_defs)
  have h3: "length (val ?self) = length (b1_offsets ?self)" by (simp add: sample_defs)
  have h4: "length (err ?self) = length (b1_offsets ?self)" by (simp add: sample_defs)
  have h5: "param_value ?params (cs_i_a (map_names ?self)) = Inr 0"
    by (simp add: param_value_def sample_defs)
  from filter_points_zero_width [OF h1 h2 h3 h4 h5]
  obtain self' where run: "filter_points ?params ?self = Inr self'"
    and b1: "b1_offsets self' = filter (\<lambda>b. nu_offset ?self 0 b \<noteq> 0) (b1_offsets ?self)"
    by blast
  have "filter_points ?params ?self = Inr (sample_profile [- 20000, 500] [1.8, 1.5] [0.1, 0.1])"
    by (simp add: filter_points_def sample_defs param_value_def nu_offset_def np_select_def)
  moreover have "nu_offset ?self 0 0 = 0"
    by (simp add: nu_offset_def sample_defs)
  ultimately show ?thesis using run by simp
qed


section \<open>The intensity scale\<close>

text \<open>
  Claim C6. For a profile with at least one point, where the computed values \<open>cal\<close> and
  the errors are all different from zero, \<^verbatim>\<open>_calculate_scale\<close> returns
  \<open>\<Sum>(calc\<cdot>val/err\<^sup>2) / \<Sum>((calc/err)\<^sup>2)\<close>; this scale is the unique minimizer of
  \<open>\<Sum>((scale\<cdot>calc - val)/err)\<^sup>2\<close>, since moving it by any \<open>eps \<noteq> 0\<close> makes the sum strictly
  larger; and \<^verbatim>\<open>calculate_profile\<close> returns the computed values times this scale.
\<close>

theorem calculate_scale_least_squares:
  assumes "length (val self) = length cal" and "length (err self) = length cal"
    and "cal \<noteq> []" and "\<forall>c \<in> set cal. c \<noteq> 0" and "\<forall>e \<in> set (err self). e \<noteq> 0"
  shows "calculate_scale self cal = Inr (Some (ls_scale cal (val self) (err self)))
     \<and> (\<forall>eps. eps \<noteq> 0 \<longrightarrow>
           chi2 cal (val self) (err self) (ls_scale cal (val self) (err self))
             < chi2 cal (val self) (err self) (ls_scale cal (val self) (err self) + eps))
     \<and> (\<forall>propagate params kw self1.
           get_kwargs params (map_names self) = Inr kw
           \<and> calculate_profile_cached propagate self kw = Inr (cal, self1)
           \<longrightarrow> calculate_profile propagate params None self
                 = Inr (map (\<lambda>c. Some (c * ls_scale cal (val self) (err self))) cal, self1))"
proof (intro conjI allI impI)
  show run: "calculate_scale self cal = Inr (Some (ls_scale cal (val self) (err self)))"
    using assms by (rule calculate_scale_value)
  have pos: "0 < sum_list (map (\<lambda>(c, v, e). (c / e) ^ 2) (zip cal (zip (val self) (err self))))"
    using assms by (intro sum_squares_pos) simp_all
  {
    fix eps :: real
    assume "eps \<noteq> 0"
    then have "0 < eps ^ 2 * sum_list (map (\<lambda>(c, v, e). (c / e) ^ 2) (zip cal (zip (val self) (err self))))"
      using pos by simp
    then show "chi2 cal (val self) (err self) (ls_scale cal (val self) (err self))
             < chi2 cal (val self) (err self) (ls_scale cal (val self) (err self) + eps)"
      using chi2_shift [OF pos, of eps] by linarith
  }
  {
    fix propagate params kw self1
    assume h: "get_kwargs params (map_names self) = Inr kw
           \<and> calculate_profile_cached propagate self kw = Inr (cal, self1)"
    then have c: "calculate_profile_cached propagate self kw = Inr (cal, self1)" ..
    have "calculate_scale self1 cal = calculate_scale self cal"
      using calculate_profile_cached_data(1,2) [OF c] by (rule calculate_scale_data)
    then have "calculate_scale self1 cal = Inr (Some (ls_scale cal (val self) (err self)))"
      using run by simp
    with h show "calculate_profile propagate params None self
                 = Inr (map (\<lambda>c. Some (c * ls_scale cal (val self) (err self))) cal, self1)"
      by (simp add: calculate_profile_def)
  }
qed

theorem calculate_scale_least_squares_witness:
  "calculate_scale (sample_profile [- 20000, 0] [1.8, 0.9] [0.1, 0.1]) [0.9, 0.45] = Inr (Some 2)
   \<and> chi2 [0.9, 0.45] [1.8, 0.9] [0.1, 0.1] 2 < chi2 [0.9, 0.45] [1.8, 0.9] [0.1, 0.1] (2 + 1)
   \<and> calculate_profile (\<lambda>a t m. Inr (fst m / 2))
        (create_default_parameters (sample_profile [] [] [])) None
        (sample_profile [- 20000, 0] [1.8, 0.9] [0.1, 0.1])
      = Inr ([Some 1.8, Some 0.9],
             (sample_profile [- 20000, 0] [1.8, 0.9] [0.1, 0.1])
               \<lparr>cache := [(sample_kwargs, [0.9, 0.45])]\<rparr>)"
proof -
  let ?self = "sample_profile [- 20000, 0] [1.8, 0.9] [0.1, 0.1]"
  let ?cal = "[0.9, 0.45] :: real list"
  have h: "length (val ?self) = length ?cal" "length (err ?self) = length ?cal" "?cal \<noteq> []"
    "\<forall>c \<in> set ?cal. c \<noteq> 0" "\<forall>e \<in> set (err ?self). e \<noteq> 0"
    by (simp_all add: sample_defs)
  have s: "ls_scale ?cal [1.8, 0.9] [0.1, 0.1] = 2"
    by (simp add: ls_scale_def power2_eq_square)
  have d: "val ?self = [1.8, 0.9]" "err ?self = [0.1, 0.1]"
    by (simp_all add: sample_defs)
  have k: "get_kwargs (create_default_parameters (sample_profile [] [] [])) (map_names ?self)
             = Inr sample_kwargs"
    by (simp add: get_kwargs_def sample_defs)
  have c: "calculate_profile_cached (\<lambda>a t m. Inr (fst m / 2)) ?self sample_kwargs
             = Inr (?cal, ?self\<lparr>cache := [(sample_kwargs, ?cal)]\<rparr>)"
    by (simp add: calculate_profile_cached_def calculate_profile_wrapped_def sample_defs magz_eq_def)
  note T = calculate_scale_least_squares [OF h, unfolded d s]
  have t1: "calculate_scale ?self ?cal = Inr (Some 2)"
    using T by (rule conjunct1)
  have t2: "chi2 ?cal [1.8, 0.9] [0.1, 0.1] 2 < chi2 ?cal [1.8, 0.9] [0.1, 0.1] (2 + 1)"
    using T [THEN conjunct2, THEN conjunct1, rule_format, of 1] by simp
  have "calculate_profile (\<lambda>a t m. Inr (fst m / 2))
          (create_default_parameters (sample_profile [] [] [])) None ?self
        = Inr (map (\<lambda>c. Some (c * 2)) ?cal, ?self\<lparr>cache := [(sample_kwargs, ?cal)]\<rparr>)"
    using T [THEN conjunct2, THEN conjunct2, rule_format, OF conjI [OF k c]] .
  then have t3: "calculate_profile (\<lambda>a t m. Inr (fst m / 2))
          (create_default_parameters (sample_profile [] [] [])) None ?self
        = Inr ([Some 1.8, Some 0.9], ?self\<lparr>cache := [(sample_kwargs, ?cal)]\<rparr>)"
    by simp
  from t1 t2 t3 show ?thesis by (intro conjI)
qed


section \<open>The exchange-model builders\<close>



section \<open>The ligand-binding models\<close>





section \<open>The three-state temperature model at the reference temperature\<close>

text \<open>
  Claim C5. In the model \<^verbatim>\<open>'3st.temperature'\<close>, when the sample temperature \<open>T\<close> equals the
  value of the reference temperature \<open>T0\<close>, the expressions registered for \<open>pb\<close>, \<open>pc\<close>,
  \<open>kex_ab\<close>, \<open>kex_bc\<close> and \<open>kex_ac\<close> evaluate exactly to the values of \<open>pb0\<close>, \<open>pc0\<close>,
  \<open>kexAB0\<close>, \<open>kexBC0\<close> and \<open>kexAC0\<close>, for all \<open>pb0\<close>, \<open>pc0\<close> with \<open>0 < pb0\<close>, \<open>0 < pc0\<close> and
  \<open>pb0 + pc0 < 1\<close> and all enthalpies. The temperature is not absolute zero
  (\<open>T + 273.15 \<noteq> 0\<close>), and the five derived parameters have distinct full names.
\<close>

theorem temperature_model_identity:
  assumes "T + 273.15 \<noteq> 0" and "0 < pb0" and "0 < pc0" and "pb0 + pc0 < 1"
    and "names ''pb'' = Some pb_name" and "names ''pc'' = Some pc_name"
    and "names ''kex_ab'' = Some kex_ab_name" and "names ''kex_bc'' = Some kex_bc_name"
    and "names ''kex_ac'' = Some kex_ac_name"
    and "names ''R'' = None" and "names ''T'' = None"
    and "distinct [pb_name, pc_name, kex_ab_name, kex_bc_name, kex_ac_name]"
    and "env (full_name ''T0'' []) = Some T"
    and "env (full_name ''pb0'' []) = Some pb0" and "env (full_name ''pc0'' []) = Some pc0"
    and "env (full_name ''kexAB0'' []) = Some kexAB0"
    and "env (full_name ''kexBC0'' []) = Some kexBC0"
    and "env (full_name ''kexAC0'' []) = Some kexAC0"
    and "env (full_name ''dH_AB'' []) = Some dH_AB" and "env (full_name ''dH_AC'' []) = Some dH_AC"
    and "env (full_name ''dH_TSAB'' []) = Some dH_TSAB"
    and "env (full_name ''dH_TSBC'' []) = Some dH_TSBC"
    and "env (full_name ''dH_TSAC'' []) = Some dH_TSAC"
  shows "eval_registered env
           (update_params_3st full_name params names ''3st.temperature'' T p_total l_total) ''pb''
           = Inr pb0
       \<and> eval_registered env
           (update_params_3st full_name params names ''3st.temperature'' T p_total l_total) ''pc''
           = Inr pc0
       \<and> eval_registered env
           (update_params_3st full_name params names ''3st.temperature'' T p_total l_total) ''kex_ab''
           = Inr kexAB0
       \<and> eval_registered env
           (update_params_3st full_name params names ''3st.temperature'' T p_total l_total) ''kex_bc''
           = Inr kexBC0
       \<and> eval_registered env
           (update_params_3st full_name params names ''3st.temperature'' T p_total l_total) ''kex_ac''
           = Inr kexAC0"
proof -
  have em: "eval env (exp_minus dH R T (full_name ''T0'' [])) = Inr 1"
    "eval env (exp_plus dH R T (full_name ''T0'' [])) = Inr 1"
    if "env dH = Some h" and "R \<noteq> 0" for dH h R
    using that assms(13,1)
      eval_exp_minus [of env "full_name ''T0'' []" T dH h R]
      eval_exp_plus [of env "full_name ''T0'' []" T dH h R]
    by blast+
  have pa: "1 - pb0 - pc0 \<noteq> 0" "1 - pc0 \<noteq> 0" "1 - pb0 \<noteq> 0" "pb0 + pc0 \<noteq> 0"
    using assms(2-4) by simp_all
  have den: "1 + pb0 / (1 - pb0 - pc0) + pc0 / (1 - pb0 - pc0) = 1 / (1 - pb0 - pc0)"
  proof -
    have one: "(1 - pb0 - pc0) / (1 - pb0 - pc0) = 1"
      using pa(1) by (rule divide_self)
    have "((1 - pb0 - pc0) + pb0 + pc0) / (1 - pb0 - pc0)
            = (1 - pb0 - pc0) / (1 - pb0 - pc0) + pb0 / (1 - pb0 - pc0) + pc0 / (1 - pb0 - pc0)"
      by (simp only: add_divide_distrib)
    moreover have "(1 - pb0 - pc0) + pb0 + pc0 = 1" by simp
    ultimately show ?thesis unfolding one by simp
  qed
  have inv: "1 / (1 - pb0 - pc0) \<noteq> 0" using pa(1) by simp
  have ab: "pb0 / (1 - pc0) + (1 - pb0 - pc0) / (1 - pc0) = 1"
  proof -
    have "pb0 / (1 - pc0) + (1 - pb0 - pc0) / (1 - pc0) = (1 - pc0) / (1 - pc0)"
      by (simp add: add_divide_distrib [symmetric])
    then show ?thesis using pa(2) by simp
  qed
  have bc: "pc0 / (pb0 + pc0) + pb0 / (pb0 + pc0) = 1"
  proof -
    have "pc0 / (pb0 + pc0) + pb0 / (pb0 + pc0) = (pb0 + pc0) / (pb0 + pc0)"
      by (simp add: add_divide_distrib [symmetric] add.commute)
    then show ?thesis using pa(4) by simp
  qed
  have ac: "pc0 / (1 - pb0) + (1 - pb0 - pc0) / (1 - pb0) = 1"
  proof -
    have "pc0 / (1 - pb0) + (1 - pb0 - pc0) / (1 - pb0) = (1 - pb0) / (1 - pb0)"
      by (simp add: add_divide_distrib [symmetric])
    then show ?thesis using pa(3) by simp
  qed
  note unfold = update_params_3st_def models_3st_def format_clash_def Let_def
      map_of_add_many entry_def eval_registered_def py_truediv_def cst_R_def
  have 1: "eval_registered env
           (update_params_3st full_name params names ''3st.temperature'' T p_total l_total) ''pb''
           = Inr pb0"
    using assms(5-12) assms(14-) pa inv
    by (simp add: unfold em den)
  have 2: "eval_registered env
           (update_params_3st full_name params names ''3st.temperature'' T p_total l_total) ''pc''
           = Inr pc0"
    using assms(5-12) assms(14-) pa inv
    by (simp add: unfold em den)
  have 3: "eval_registered env
           (update_params_3st full_name params names ''3st.temperature'' T p_total l_total) ''kex_ab''
           = Inr kexAB0"
    using assms(5-12) assms(14-) pa
    by (simp add: unfold em ab)
  have 4: "eval_registered env
           (update_params_3st full_name params names ''3st.temperature'' T p_total l_total) ''kex_bc''
           = Inr kexBC0"
    using assms(5-12) assms(14-) pa
    by (simp add: unfold em bc)
  have 5: "eval_registered env
           (update_params_3st full_name params names ''3st.temperature'' T p_total l_total) ''kex_ac''
           = Inr kexAC0"
    using assms(5-12) assms(14-) pa
    by (simp add: unfold em ac)
  from 1 2 3 4 5 show ?thesis by (intro conjI)
qed


theorem temperature_model_identity_witness:
  "(25 :: real) + 273.15 \<noteq> 0 \<and> (0 :: real) < 0.05 \<and> (0.05 :: real) + 0.05 < 1
   \<and> eval_registered reference_env
        (update_params_3st (\<lambda>n c. n) [] derived_names ''3st.temperature'' 25 1 3) ''pb''
        = Inr 0.05
   \<and> eval_registered reference_env
        (update_params_3st (\<lambda>n c. n) [] derived_names ''3st.temperature'' 25 1 3) ''pc''
        = Inr 0.05
   \<and> eval_registered reference_env
        (update_params_3st (\<lambda>n c. n) [] derived_names ''3st.temperature'' 25 1 3) ''kex_ab''
        = Inr 100
   \<and> eval_registered reference_env
        (update_params_3st (\<lambda>n c. n) [] derived_names ''3st.temperature'' 25 1 3) ''kex_bc''
        = Inr 150
   \<and> eval_registered reference_env
        (update_params_3st (\<lambda>n c. n) [] derived_names ''3st.temperature'' 25 1 3) ''kex_ac''
        = Inr 0"
proof -
  have "eval_registered reference_env
          (update_params_3st (\<lambda>n c. n) [] derived_names ''3st.temperature'' 25 1 3) ''pb''
          = Inr 0.05
     \<and> eval_registered reference_env
          (update_params_3st (\<lambda>n c. n) [] derived_names ''3st.temperature'' 25 1 3) ''pc''
          = Inr 0.05
     \<and> eval_registered reference_env
          (update_params_3st (\<lambda>n c. n) [] derived_names ''3st.temperature'' 25 1 3) ''kex_ab''
          = Inr 100
     \<and> eval_registered reference_env
          (update_params_3st (\<lambda>n c. n) [] derived_names ''3st.temperature'' 25 1 3) ''kex_bc''
          = Inr 150
     \<and> eval_registered reference_env
          (update_params_3st (\<lambda>n c. n) [] derived_names ''3st.temperature'' 25 1 3) ''kex_ac''
          = Inr 0"
    by (rule temperature_model_identity
          [where pb_name = "''pb''" and pc_name = "''pc''" and kex_ab_name = "''kex_ab''"
             and kex_bc_name = "''kex_bc''" and kex_ac_name = "''kex_ac''"
             and dH_AB = 5 and dH_AC = "- 5" and dH_TSAB = 10 and dH_TSBC = 10 and dH_TSAC = 10])
       (simp_all add: derived_names_def reference_env_def)
  then show ?thesis by simp
qed


section \<open>The fit driver\<close>




section \<open>The grid of the fitted curve\<close>




text \<open>Without the method on the profile object no entry is ever produced.\<close>

lemma compute_profile_needs_method:
  "compute_profile propagate None params profile \<noteq> Inr result"
  unfolding compute_profile_def Let_def
  by (auto simp: and_then_eq_Inr split: prod.splits)

end
